theory Spec2Isabelle
  imports Main
begin

section \<open>Smart-cart backend: the cashier-code flow of \<open>server.js\<close>\<close>

text \<open>
  The theory embeds the three handlers of \<open>src/server.js\<close> that touch the
  \<open>CashIntent\<close> and \<open>CashierCodeHistory\<close> collections:
  \<open>POST /cash-intent\<close> (lines 139-161), \<open>POST /verify-cashier-code\<close> (lines 174-197)
  and \<open>POST /purchase\<close> (lines 88-107).

  A handler is a function from the request's environment, the fields read from
  \<open>req.body\<close> and the store to the JSON response and the new store. Requests are
  handled one after the other; interleavings of concurrent requests are not modelled.
\<close>

subsection \<open>JavaScript values of a request body\<close>

text \<open>
  The scalar JSON values a body field can hold; \<open>JUndefined\<close> is an absent field.
  \<open>JNum\<close> holds an integer-valued number. Objects and arrays are not values of this
  type.
\<close>

datatype jsval = JUndefined | JNull | JBool bool | JNum int | JStr string

text \<open>JavaScript truthiness, as tested by \<open>!x\<close>.\<close>

fun truthy :: "jsval \<Rightarrow> bool" where
  "truthy JUndefined = False"
| "truthy JNull = False"
| "truthy (JBool b) = b"
| "truthy (JNum n) = (n \<noteq> 0)"
| "truthy (JStr s) = (s \<noteq> [])"

definition digit :: "nat \<Rightarrow> char" where
  "digit d = ''0123456789'' ! d"

fun digits :: "nat \<Rightarrow> string" where
  "digits n = (if n < 10 then [digit n] else digits (n div 10) @ [digit (n mod 10)])"

declare digits.simps [simp del]

text \<open>
  From \<open>10^21\<close> on JavaScript prints a number in exponent notation, with the digits of
  its binary64 form. That rendering is not modelled: it is some string, left
  unspecified.
\<close>

definition exponent_notation :: "nat \<Rightarrow> string" where
  "exponent_notation m = undefined m"

text \<open>The text of a non-negative integer-valued number: plain decimal below \<open>10^21\<close>.\<close>

definition magnitude :: "nat \<Rightarrow> string" where
  "magnitude m = (if m < 10 ^ 21 then digits m else exponent_notation m)"

text \<open>JavaScript's \<open>String(x)\<close> on the values above.\<close>

fun String_js :: "jsval \<Rightarrow> string" where
  "String_js JUndefined = ''undefined''"
| "String_js JNull = ''null''"
| "String_js (JBool b) = (if b then ''true'' else ''false'')"
| "String_js (JNum n) = (if n < 0 then CHR ''-'' # magnitude (nat (- n)) else magnitude (nat n))"
| "String_js (JStr s) = s"

text \<open>
  Modelled from the spec: the schemas \<open>models/CashIntent\<close> and
  \<open>models/CashierCodeHistory\<close> are not among the sources. The spec gives name,
  mobile and code as text, so a value written to such a field, or used in a filter on
  it, is cast as Mongoose casts to a String path: \<open>null\<close> and \<open>undefined\<close> stay unset
  (\<open>None\<close>), any other scalar becomes its \<open>toString()\<close>.
\<close>

fun castString :: "jsval \<Rightarrow> string option" where
  "castString JUndefined = None"
| "castString JNull = None"
| "castString v = Some (String_js v)"

subsection \<open>Documents and the store\<close>

text \<open>
  A \<open>CashIntent\<close> document with the five fields the handler writes (lines 147-153).
  Times are milliseconds since the epoch.
\<close>

record intent =
  ci_name :: "string option"
  ci_mobile :: "string option"
  ci_cashierCode :: "string option"
  ci_date :: int
  ci_expiresAt :: int

text \<open>
  A \<open>CashierCodeHistory\<close> document: the two fields passed to \<open>create\<close> (line 156),
  the two set on verification (line 190), and \<open>createdAt\<close>, the sort key of line 202.
  Modelled from the spec: the schema is not among the sources; its defaults are
  \<open>verified = false\<close>, no \<open>verifiedAt\<close>, and the creation time.
\<close>

record history_row =
  h_cashierCode :: "string option"
  h_mobile :: "string option"
  h_verified :: bool
  h_verifiedAt :: "int option"
  h_createdAt :: int

text \<open>
  A \<open>Purchase\<close> document, holding the arguments of \<open>new Purchase\<close> (lines 94-100) as
  they are passed. The products payload is of an arbitrary type \<open>'p\<close>.
\<close>

record 'p purchase_doc =
  p_name :: jsval
  p_mobile :: jsval
  p_products :: "'p option"
  p_paymentMethod :: jsval
  p_cashierCode :: jsval

text \<open>
  A collection is the list of its documents in store order; \<open>create\<close>, \<open>save\<close> and an
  inserting upsert append at the end.
\<close>

record 'p store =
  intents :: "intent list"
  history :: "history_row list"
  purchases :: "'p purchase_doc list"

definition empty_store :: "'p store" where
  "empty_store = \<lparr>intents = [], history = [], purchases = []\<rparr>"

subsection \<open>Store operations\<close>

text \<open>\<open>findOne(filter)\<close>: the first document in store order that matches.\<close>

fun find_one :: "('a \<Rightarrow> bool) \<Rightarrow> 'a list \<Rightarrow> 'a option" where
  "find_one P [] = None"
| "find_one P (x # xs) = (if P x then Some x else find_one P xs)"

text \<open>\<open>deleteOne(filter)\<close>: removes the first matching document, if any.\<close>

fun delete_one :: "('a \<Rightarrow> bool) \<Rightarrow> 'a list \<Rightarrow> 'a list" where
  "delete_one P [] = []"
| "delete_one P (x # xs) = (if P x then xs else x # delete_one P xs)"

text \<open>\<open>updateOne(filter, {$set: ...})\<close>: changes the first matching document, if any.\<close>

fun update_one :: "('a \<Rightarrow> bool) \<Rightarrow> ('a \<Rightarrow> 'a) \<Rightarrow> 'a list \<Rightarrow> 'a list" where
  "update_one P f [] = []"
| "update_one P f (x # xs) = (if P x then f x # xs else x # update_one P f xs)"

text \<open>
  \<open>findOneAndUpdate(filter, update, {upsert: true})\<close>: changes the first matching
  document, and inserts a new one when none matches.
\<close>

definition find_one_and_update_upsert ::
  "('a \<Rightarrow> bool) \<Rightarrow> ('a \<Rightarrow> 'a) \<Rightarrow> 'a \<Rightarrow> 'a list \<Rightarrow> 'a list" where
  "find_one_and_update_upsert P f new xs =
     (case find_one P xs of
        None \<Rightarrow> xs @ [new]
      | Some _ \<Rightarrow> update_one P f xs)"

subsection \<open>The environment of a request\<close>

text \<open>The store operations a handler awaits; each may reject.\<close>

datatype store_op =
  IntentFindOneAndUpdate | HistoryCreate | IntentFindOne | IntentDeleteOne
  | HistoryUpdateOne | PurchaseSave

text \<open>
  What a request gets from outside the handler: the value \<open>generateCashierCode()\<close>
  returns (\<open>./verifyCode\<close> is not among the sources, so the code is a parameter), the
  clock readings of the request in evaluation order (\<open>new Date()\<close>, \<open>Date.now()\<close>), and
  for each store operation the message of the error it rejects with, if it does. A
  rejected operation leaves its collection as it was.
\<close>

record env =
  generated :: jsval
  clock :: "nat \<Rightarrow> int"
  fault :: "store_op \<Rightarrow> string option"

text \<open>An environment with a standing clock and no failing store operation.\<close>

definition calm :: "jsval \<Rightarrow> int \<Rightarrow> env" where
  "calm code t = \<lparr>generated = code, clock = (\<lambda>_. t), fault = (\<lambda>_. None)\<rparr>"

text \<open>The calm environment, except that one store operation rejects.\<close>

definition failing :: "jsval \<Rightarrow> int \<Rightarrow> store_op \<Rightarrow> string \<Rightarrow> env" where
  "failing code t op msg =
     \<lparr>generated = code, clock = (\<lambda>_. t), fault = (\<lambda>o'. if o' = op then Some msg else None)\<rparr>"

text \<open>An environment with no failing store operation whose clock advances by one
  millisecond from one reading to the next.\<close>

definition ticking :: "jsval \<Rightarrow> int \<Rightarrow> env" where
  "ticking code t = \<lparr>generated = code, clock = (\<lambda>k. t + int k), fault = (\<lambda>_. None)\<rparr>"

subsection \<open>Responses\<close>

record response =
  res_status :: nat
  res_success :: bool
  res_message :: "string option"
  res_cashierCode :: "jsval option"
  res_error :: "string option"

text \<open>\<open>res.status(c).json({success: false, message})\<close>\<close>

definition reject :: "nat \<Rightarrow> string \<Rightarrow> response" where
  "reject c msg =
     \<lparr>res_status = c, res_success = False, res_message = Some msg,
      res_cashierCode = None, res_error = None\<rparr>"

text \<open>\<open>res.status(500).json({success: false, message, error: err.message})\<close>\<close>

definition server_error :: "string \<Rightarrow> string \<Rightarrow> response" where
  "server_error msg err =
     \<lparr>res_status = 500, res_success = False, res_message = Some msg,
      res_cashierCode = None, res_error = Some err\<rparr>"

text \<open>\<open>res.json({success: true, message})\<close>\<close>

definition ok_message :: "string \<Rightarrow> response" where
  "ok_message msg =
     \<lparr>res_status = 200, res_success = True, res_message = Some msg,
      res_cashierCode = None, res_error = None\<rparr>"

text \<open>\<open>res.json({success: true, cashierCode})\<close>\<close>

definition ok_code :: "jsval \<Rightarrow> response" where
  "ok_code c =
     \<lparr>res_status = 200, res_success = True, res_message = None,
      res_cashierCode = Some c, res_error = None\<rparr>"

text \<open>
  The two marks that open the messages of \<open>/verify-cashier-code\<close>, as the bytes the
  source file holds between the quotes.
\<close>

definition cross_mark :: string where
  "cross_mark = [CHR 0xC3, CHR 0xA2, CHR 0xC5, CHR 0x92]"

definition check_mark :: string where
  "check_mark = [CHR 0xC3, CHR 0xA2, CHR 0xC5, CHR 0x93, CHR 0xE2, CHR 0x80, CHR 0xA6]"

subsection \<open>The handlers\<close>

text \<open>The filter \<open>{ mobile }\<close> on \<open>CashIntent\<close>.\<close>

definition by_mobile :: "jsval \<Rightarrow> intent \<Rightarrow> bool" where
  "by_mobile mobile i = (ci_mobile i = castString mobile)"

text \<open>The filter \<open>{ mobile, cashierCode: String(cashierCode) }\<close> on \<open>CashIntent\<close>.\<close>

definition by_mobile_code :: "jsval \<Rightarrow> jsval \<Rightarrow> intent \<Rightarrow> bool" where
  "by_mobile_code mobile cashierCode i =
     (ci_mobile i = castString mobile \<and> ci_cashierCode i = Some (String_js cashierCode))"

text \<open>
  The filter \<open>{ mobile, cashierCode: String(cashierCode), verified: false }\<close> on
  \<open>CashierCodeHistory\<close>.
\<close>

definition unverified_row :: "jsval \<Rightarrow> jsval \<Rightarrow> history_row \<Rightarrow> bool" where
  "unverified_row mobile cashierCode h =
     (h_mobile h = castString mobile \<and> h_cashierCode h = Some (String_js cashierCode)
      \<and> h_verified h = False)"

text \<open>The update \<open>{ $set: { verified: true, verifiedAt: new Date() } }\<close>.\<close>

definition set_verified :: "int \<Rightarrow> history_row \<Rightarrow> history_row" where
  "set_verified t h = h\<lparr>h_verified := True, h_verifiedAt := Some t\<rparr>"

text \<open>
  One key of an update document applied to a stored text field: a key whose value is
  \<open>undefined\<close> is dropped from the update, so the stored field stays; any other value
  is cast and written.
\<close>

definition set_path :: "jsval \<Rightarrow> string option \<Rightarrow> string option" where
  "set_path v old = (if v = JUndefined then old else castString v)"

text \<open>
  The update document of line 147-153. The first clock reading is \<open>new Date()\<close> of
  line 151, the second \<open>Date.now()\<close> of line 152.
\<close>

definition set_intent :: "env \<Rightarrow> jsval \<Rightarrow> jsval \<Rightarrow> jsval \<Rightarrow> intent \<Rightarrow> intent" where
  "set_intent e name mobile cashierCode i =
     i\<lparr>ci_name := set_path name (ci_name i),
       ci_mobile := set_path mobile (ci_mobile i),
       ci_cashierCode := set_path cashierCode (ci_cashierCode i),
       ci_date := clock e 0,
       ci_expiresAt := clock e 1 + 15 * 60 * 1000\<rparr>"

text \<open>The document an upsert inserts: the filter's field and the update's fields.\<close>

definition new_intent :: "env \<Rightarrow> jsval \<Rightarrow> jsval \<Rightarrow> jsval \<Rightarrow> intent" where
  "new_intent e name mobile cashierCode =
     \<lparr>ci_name = castString name,
      ci_mobile = castString mobile,
      ci_cashierCode = castString cashierCode,
      ci_date = clock e 0,
      ci_expiresAt = clock e 1 + 15 * 60 * 1000\<rparr>"

text \<open>
  The document \<open>CashierCodeHistory.create({ cashierCode, mobile })\<close> inserts; its
  creation time is the third clock reading of the request.
\<close>

definition new_history_row :: "env \<Rightarrow> jsval \<Rightarrow> jsval \<Rightarrow> history_row" where
  "new_history_row e cashierCode mobile =
     \<lparr>h_cashierCode = castString cashierCode,
      h_mobile = castString mobile,
      h_verified = False,
      h_verifiedAt = None,
      h_createdAt = clock e 2\<rparr>"

text \<open>\<open>POST /cash-intent\<close>, lines 139-161.\<close>

definition cash_intent :: "env \<Rightarrow> jsval \<Rightarrow> jsval \<Rightarrow> 'p store \<Rightarrow> response \<times> 'p store" where
  "cash_intent e name mobile s =
     (if \<not> truthy name \<or> \<not> truthy mobile then (reject 400 ''Missing fields'', s)
      else
        let cashierCode = generated e in
        case fault e IntentFindOneAndUpdate of
          Some err \<Rightarrow> (server_error ''Error saving cash intent'' err, s)
        | None \<Rightarrow>
            let s1 = s\<lparr>intents :=
                       find_one_and_update_upsert (by_mobile mobile)
                         (set_intent e name mobile cashierCode)
                         (new_intent e name mobile cashierCode) (intents s)\<rparr>
            in (case fault e HistoryCreate of
                  Some err \<Rightarrow> (server_error ''Error saving cash intent'' err, s1)
                | None \<Rightarrow>
                    (ok_code cashierCode,
                     s1\<lparr>history := history s1 @ [new_history_row e cashierCode mobile]\<rparr>)))"

text \<open>
  \<open>POST /verify-cashier-code\<close>, lines 174-197. The first clock reading is \<open>new Date()\<close>
  of line 182, the second \<open>new Date()\<close> of line 190.
\<close>

definition verify_cashier_code ::
  "env \<Rightarrow> jsval \<Rightarrow> jsval \<Rightarrow> 'p store \<Rightarrow> response \<times> 'p store" where
  "verify_cashier_code e mobile cashierCode s =
     (if \<not> truthy mobile \<or> \<not> truthy cashierCode
      then (reject 400 ''Missing mobile or code'', s)
      else
        case fault e IntentFindOne of
          Some err \<Rightarrow> (server_error (cross_mark @ '' Server error'') err, s)
        | None \<Rightarrow>
           (case find_one (by_mobile_code mobile cashierCode) (intents s) of
              None \<Rightarrow> (reject 401 (cross_mark @ '' Invalid code''), s)
            | Some intent \<Rightarrow>
                if clock e 0 > ci_expiresAt intent then
                  (case fault e IntentDeleteOne of
                     Some err \<Rightarrow> (server_error (cross_mark @ '' Server error'') err, s)
                   | None \<Rightarrow>
                       (reject 401 (cross_mark @ '' Code expired''),
                        s\<lparr>intents := delete_one (by_mobile mobile) (intents s)\<rparr>))
                else
                  (case fault e IntentDeleteOne of
                     Some err \<Rightarrow> (server_error (cross_mark @ '' Server error'') err, s)
                   | None \<Rightarrow>
                       let s1 = s\<lparr>intents := delete_one (by_mobile mobile) (intents s)\<rparr>
                       in (case fault e HistoryUpdateOne of
                             Some err \<Rightarrow>
                               (server_error (cross_mark @ '' Server error'') err, s1)
                           | None \<Rightarrow>
                               (ok_message (check_mark @ '' Code verified''),
                                s1\<lparr>history :=
                                     update_one (unverified_row mobile cashierCode)
                                       (set_verified (clock e 1)) (history s1)\<rparr>)))))"

text \<open>
  \<open>POST /purchase\<close>, lines 88-107. \<open>products\<close> is \<open>None\<close> when the field is absent or
  falsy; \<open>email\<close> is read from the body and not used. \<open>save_purchase\<close> is
  \<open>await purchase.save()\<close> of line 102 with the response that follows it.
\<close>

definition save_purchase :: "env \<Rightarrow> 'p purchase_doc \<Rightarrow> 'p store \<Rightarrow> response \<times> 'p store" where
  "save_purchase e doc s =
     (case fault e PurchaseSave of
        Some err \<Rightarrow> (server_error ''Error saving purchase'' err, s)
      | None \<Rightarrow> (ok_message ''Purchase saved'', s\<lparr>purchases := purchases s @ [doc]\<rparr>))"

definition purchase ::
  "env \<Rightarrow> jsval \<Rightarrow> jsval \<Rightarrow> jsval \<Rightarrow> 'p option \<Rightarrow> jsval \<Rightarrow> jsval \<Rightarrow> 'p store
     \<Rightarrow> response \<times> 'p store" where
  "purchase e name mobile email products paymentMethod cashierCode s =
     (if \<not> truthy name \<or> \<not> truthy mobile \<or> products = None \<or> \<not> truthy paymentMethod
      then (reject 400 ''Missing fields'', s)
      else
        let doc = \<lparr>p_name = name, p_mobile = mobile, p_products = products,
                   p_paymentMethod = paymentMethod,
                   p_cashierCode = (if paymentMethod = JStr ''cash'' then cashierCode else JNull)\<rparr>
        in if paymentMethod = JStr ''cash'' then
             (case fault e IntentDeleteOne of
                Some err \<Rightarrow> (server_error ''Error saving purchase'' err, s)
              | None \<Rightarrow>
                  save_purchase e doc (s\<lparr>intents := delete_one (by_mobile mobile) (intents s)\<rparr>))
           else save_purchase e doc s)"

subsection \<open>Sequences of requests\<close>

datatype 'p request =
  CashIntentReq jsval jsval
  | VerifyReq jsval jsval
  | PurchaseReq jsval jsval jsval "'p option" jsval jsval

text \<open>The router: each path to its handler.\<close>

fun handle :: "env \<Rightarrow> 'p request \<Rightarrow> 'p store \<Rightarrow> response \<times> 'p store" where
  "handle e (CashIntentReq name mobile) s = cash_intent e name mobile s"
| "handle e (VerifyReq mobile cashierCode) s = verify_cashier_code e mobile cashierCode s"
| "handle e (PurchaseReq name mobile email products paymentMethod cashierCode) s =
     purchase e name mobile email products paymentMethod cashierCode s"

text \<open>The store after a sequence of requests, each with its own environment.\<close>

fun run :: "(env \<times> 'p request) list \<Rightarrow> 'p store \<Rightarrow> 'p store" where
  "run [] s = s"
| "run ((e, r) # rs) s = run rs (snd (handle e r s))"

text \<open>The invariant of the data model: no two \<open>CashIntent\<close> documents share a mobile.\<close>

definition one_intent_per_mobile :: "'p store \<Rightarrow> bool" where
  "one_intent_per_mobile s = distinct (map ci_mobile (intents s))"

text \<open>An intent whose expiry is its stored creation time plus 15 minutes.\<close>

definition expires_after_date :: "intent \<Rightarrow> bool" where
  "expires_after_date i = (ci_expiresAt i = ci_date i + 15 * 60 * 1000)"

subsection \<open>Example stores\<close>

text \<open>
  The store after one \<open>POST /cash-intent\<close> for Alice on the empty store, and after a
  second one for the same mobile in which \<open>generateCashierCode()\<close> returns the same
  code again.
\<close>

definition alice_store :: "unit store" where
  "alice_store =
     snd (cash_intent (calm (JStr ''482913'') 1000) (JStr ''Alice'') (JStr ''9990001111'')
            empty_store)"

definition alice_store_twice :: "unit store" where
  "alice_store_twice =
     snd (cash_intent (calm (JStr ''482913'') 2000) (JStr ''Alice'') (JStr ''9990001111'')
            alice_store)"


section \<open>Properties of the store operations\<close>

lemma digits_small: "n < 10 \<Longrightarrow> digits n = [digit n]"
  by (simp add: digits.simps)

lemma digits_big: "\<not> n < 10 \<Longrightarrow> digits n = digits (n div 10) @ [digit (n mod 10)]"
  by (subst digits.simps) simp

lemma find_one_None_iff: "find_one P xs = None \<longleftrightarrow> (\<forall>x\<in>set xs. \<not> P x)"
  by (induction xs) auto

lemma find_one_SomeD: "find_one P xs = Some x \<Longrightarrow> x \<in> set xs \<and> P x"
  by (induction xs) (auto split: if_splits)

lemma set_delete_one: "set (delete_one P xs) \<subseteq> set xs"
  by (induction xs) auto

lemma length_delete_one:
  "find_one P xs = Some x \<Longrightarrow> Suc (length (delete_one P xs)) = length xs"
  by (induction xs) (auto split: if_splits)

lemma distinct_map_delete_one:
  "distinct (map k xs) \<Longrightarrow> distinct (map k (delete_one P xs))"
proof (induction xs)
  case Nil
  then show ?case by simp
next
  case (Cons a xs)
  have "k a \<notin> k ` set (delete_one P xs)"
    using Cons.prems set_delete_one [of P xs] by auto
  with Cons show ?case by simp
qed

lemma delete_one_key_gone:
  "distinct (map k xs) \<Longrightarrow> x \<in> set (delete_one (\<lambda>y. k y = v) xs) \<Longrightarrow> k x \<noteq> v"
proof (induction xs)
  case Nil
  then show ?case by simp
next
  case (Cons a xs)
  show ?case
  proof (cases "k a = v")
    case True
    with Cons.prems have "x \<in> set xs" and "k a \<notin> k ` set xs" by simp_all
    with True show ?thesis by blast
  next
    case False
    with Cons show ?thesis by auto
  qed
qed

lemma delete_one_remove1:
  "distinct (map k xs) \<Longrightarrow> x \<in> set xs \<Longrightarrow> k x = v
     \<Longrightarrow> delete_one (\<lambda>y. k y = v) xs = remove1 x xs"
proof (induction xs)
  case Nil
  then show ?case by simp
next
  case (Cons a xs)
  show ?case
  proof (cases "a = x")
    case True
    with Cons.prems show ?thesis by simp
  next
    case False
    with Cons.prems have "x \<in> set xs" by simp
    with Cons.prems have "k a \<noteq> k x" by force
    with Cons False \<open>x \<in> set xs\<close> show ?thesis by simp
  qed
qed

lemma map_key_update_one:
  "(\<And>x. P x \<Longrightarrow> k (g x) = k x) \<Longrightarrow> map k (update_one P g xs) = map k xs"
  by (induction xs) auto

lemma length_update_one: "length (update_one P g xs) = length xs"
  by (induction xs) auto

lemma update_one_none: "\<forall>x\<in>set xs. \<not> P x \<Longrightarrow> update_one P g xs = xs"
  by (induction xs) auto

lemma update_one_first:
  "\<forall>x\<in>set pre. \<not> P x \<Longrightarrow> P h \<Longrightarrow> update_one P g (pre @ h # post) = pre @ g h # post"
  by (induction pre) auto

lemma update_one_list_update:
  "k < length xs \<Longrightarrow> P (xs ! k) \<Longrightarrow> \<forall>j<k. \<not> P (xs ! j)
     \<Longrightarrow> update_one P g xs = xs[k := g (xs ! k)]"
proof (induction xs arbitrary: k)
  case Nil
  then show ?case by simp
next
  case (Cons a xs)
  show ?case
  proof (cases k)
    case 0
    with Cons.prems show ?thesis by simp
  next
    case (Suc m)
    with Cons.prems have "\<not> P a" by auto
    moreover have "update_one P g xs = xs[m := g (xs ! m)]"
      using Cons.prems Suc by (intro Cons.IH) auto
    ultimately show ?thesis using Suc by simp
  qed
qed

lemma filter_key_update_one:
  "distinct (map k xs) \<Longrightarrow> find_one (\<lambda>y. k y = v) xs = Some x \<Longrightarrow> k (g x) = v
     \<Longrightarrow> filter (\<lambda>y. k y = v) (update_one (\<lambda>y. k y = v) g xs) = [g x]"
proof (induction xs)
  case Nil
  then show ?case by simp
next
  case (Cons a xs)
  show ?case
  proof (cases "k a = v")
    case True
    with Cons.prems have "a = x" by simp
    moreover have "v \<notin> k ` set xs"
      using Cons.prems True by auto
    then have "filter (\<lambda>y. k y = v) xs = []"
      by (auto simp: filter_empty_conv)
    ultimately show ?thesis using True Cons.prems by simp
  next
    case False
    with Cons show ?thesis by simp
  qed
qed

lemma filter_key_append_new:
  "find_one (\<lambda>y. k y = v) xs = None \<Longrightarrow> k new = v
     \<Longrightarrow> filter (\<lambda>y. k y = v) (xs @ [new]) = [new]"
  by (simp add: find_one_None_iff filter_empty_conv)

lemma truthy_defined: "truthy v \<Longrightarrow> v \<noteq> JUndefined"
  by (cases v) simp_all

lemma set_intent_mobile:
  "truthy mobile \<Longrightarrow> ci_mobile (set_intent e name mobile code i) = castString mobile"
  by (simp add: set_intent_def set_path_def truthy_defined)

lemma set_intent_code:
  "code \<noteq> JUndefined \<Longrightarrow> ci_cashierCode (set_intent e name mobile code i) = castString code"
  by (simp add: set_intent_def set_path_def)

lemma set_intent_times:
  "ci_date (set_intent e name mobile code i) = clock e 0"
  "ci_expiresAt (set_intent e name mobile code i) = clock e 1 + 15 * 60 * 1000"
  by (simp_all add: set_intent_def)

lemma distinct_upsert:
  assumes "distinct (map k xs)" and "k new = v" and "\<And>x. k (g x) = v"
  shows "distinct (map k (find_one_and_update_upsert (\<lambda>y. k y = v) g new xs))"
proof (cases "find_one (\<lambda>y. k y = v) xs")
  case None
  then have "v \<notin> k ` set xs" by (auto simp: find_one_None_iff)
  with assms None show ?thesis by (simp add: find_one_and_update_upsert_def)
next
  case (Some x)
  have "map k (update_one (\<lambda>y. k y = v) g xs) = map k xs"
    by (rule map_key_update_one) (simp add: assms)
  with assms Some show ?thesis by (simp add: find_one_and_update_upsert_def)
qed

lemma filter_upsert:
  assumes "distinct (map k xs)" and "k new = v" and "\<And>x. k (g x) = v"
    and "Q new" and "\<And>x. Q (g x)"
  shows "\<exists>y. filter (\<lambda>y. k y = v) (find_one_and_update_upsert (\<lambda>y. k y = v) g new xs) = [y]
             \<and> Q y"
proof (cases "find_one (\<lambda>y. k y = v) xs")
  case None
  with assms show ?thesis
    by (simp add: find_one_and_update_upsert_def filter_key_append_new del: filter_append)
next
  case (Some x)
  have "filter (\<lambda>y. k y = v) (update_one (\<lambda>y. k y = v) g xs) = [g x]"
    using assms(1) Some by (intro filter_key_update_one) (simp_all add: assms(3))
  with assms(5) Some show ?thesis by (simp add: find_one_and_update_upsert_def)
qed

lemma find_one_update_one_mem: "find_one P xs = Some x \<Longrightarrow> g x \<in> set (update_one P g xs)"
  by (induction xs) (auto split: if_splits)

lemma upsert_mem:
  assumes "Q new" and "\<And>x. Q (g x)"
  shows "\<exists>y\<in>set (find_one_and_update_upsert P g new xs). Q y"
proof (cases "find_one P xs")
  case None
  with assms(1) show ?thesis by (simp add: find_one_and_update_upsert_def)
next
  case (Some x)
  then have "g x \<in> set (update_one P g xs)" by (rule find_one_update_one_mem)
  with assms(2) Some show ?thesis by (auto simp: find_one_and_update_upsert_def)
qed

lemma update_one_cases:
  "((\<forall>x\<in>set xs. \<not> P x) \<and> update_one P g xs = xs)
   \<or> (\<exists>k<length xs. P (xs ! k) \<and> (\<forall>j<k. \<not> P (xs ! j))
         \<and> update_one P g xs = xs[k := g (xs ! k)])"
proof (cases "\<exists>k<length xs. P (xs ! k)")
  case False
  then have "\<forall>x\<in>set xs. \<not> P x" by (auto simp: in_set_conv_nth)
  then show ?thesis by (simp add: update_one_none)
next
  case True
  define k where "k = (LEAST k. k < length xs \<and> P (xs ! k))"
  from True obtain k0 where "k0 < length xs \<and> P (xs ! k0)" by blast
  then have k: "k < length xs \<and> P (xs ! k)"
    unfolding k_def by (rule LeastI)
  have least: "\<forall>j<k. \<not> P (xs ! j)"
  proof (intro allI impI notI)
    fix j assume "j < k" and "P (xs ! j)"
    with k have "j < length xs \<and> P (xs ! j)" by simp
    then have "k \<le> j" unfolding k_def by (rule Least_le)
    with \<open>j < k\<close> show False by simp
  qed
  with k have "update_one P g xs = xs[k := g (xs ! k)]"
    by (simp add: update_one_list_update)
  with k least show ?thesis by blast
qed

lemma update_one_changes_le_1:
  "card {k. k < length xs \<and> update_one P g xs ! k \<noteq> xs ! k} \<le> 1"
proof -
  from update_one_cases [of xs P g]
  consider "update_one P g xs = xs"
    | k where "k < length xs" and "update_one P g xs = xs[k := g (xs ! k)]"
    by blast
  then show ?thesis
  proof cases
    case 1
    then show ?thesis by simp
  next
    case 2
    then have "{j. j < length xs \<and> update_one P g xs ! j \<noteq> xs ! j} \<subseteq> {k}"
      by (auto simp: nth_list_update)
    then have "card {j. j < length xs \<and> update_one P g xs ! j \<noteq> xs ! j} \<le> card {k}"
      by (intro card_mono) simp_all
    then show ?thesis by simp
  qed
qed

lemma update_one_later_untouched:
  "j < k \<Longrightarrow> k < length xs \<Longrightarrow> P (xs ! j) \<Longrightarrow> update_one P g xs ! k = xs ! k"
proof (induction xs arbitrary: j k)
  case Nil
  then show ?case by simp
next
  case (Cons a xs)
  show ?case
  proof (cases "P a")
    case True
    from Cons.prems obtain k' where "k = Suc k'" by (cases k) auto
    with True show ?thesis by simp
  next
    case False
    with Cons.prems obtain j' where j: "j = Suc j'" by (cases j) auto
    with Cons.prems obtain k' where k: "k = Suc k'" by (cases k) auto
    from Cons.prems j k have "update_one P g xs ! k' = xs ! k'"
      by (intro Cons.IH [of j' k']) auto
    with False k show ?thesis by simp
  qed
qed

lemmas handler_defs =
  cash_intent_def verify_cashier_code_def purchase_def save_purchase_def Let_def

lemma cash_intent_inv:
  assumes "one_intent_per_mobile s"
  shows "one_intent_per_mobile (snd (cash_intent e name mobile s))"
proof (cases "truthy name \<and> truthy mobile")
  case False
  with assms show ?thesis by (auto simp: cash_intent_def)
next
  case True
  have "distinct (map ci_mobile
          (find_one_and_update_upsert (\<lambda>y. ci_mobile y = castString mobile)
             (set_intent e name mobile (generated e))
             (new_intent e name mobile (generated e)) (intents s)))"
    using assms True
    by (intro distinct_upsert)
       (simp_all add: one_intent_per_mobile_def new_intent_def set_intent_mobile)
  with assms show ?thesis
    by (simp add: handler_defs one_intent_per_mobile_def by_mobile_def [abs_def]
          split: option.splits)
qed

lemma verify_inv:
  "one_intent_per_mobile s
     \<Longrightarrow> one_intent_per_mobile (snd (verify_cashier_code e mobile cashierCode s))"
  by (simp add: handler_defs one_intent_per_mobile_def distinct_map_delete_one
        split: option.splits)

lemma purchase_inv:
  "one_intent_per_mobile s
     \<Longrightarrow> one_intent_per_mobile
           (snd (purchase e name mobile email products paymentMethod cashierCode s))"
  by (simp add: handler_defs one_intent_per_mobile_def distinct_map_delete_one
        split: option.splits)

lemma handle_inv: "one_intent_per_mobile s \<Longrightarrow> one_intent_per_mobile (snd (handle e r s))"
  by (cases r) (simp_all add: cash_intent_inv verify_inv purchase_inv)

lemma run_inv: "one_intent_per_mobile s \<Longrightarrow> one_intent_per_mobile (run rs s)"
  by (induction rs arbitrary: s) (auto simp: handle_inv)

lemma empty_inv: "one_intent_per_mobile empty_store"
  by (simp add: one_intent_per_mobile_def empty_store_def)

lemma cash_intent_ok_intents:
  "res_success (fst (cash_intent e name mobile s))
     \<Longrightarrow> truthy name \<and> truthy mobile
         \<and> intents (snd (cash_intent e name mobile s)) =
             find_one_and_update_upsert (by_mobile mobile)
               (set_intent e name mobile (generated e))
               (new_intent e name mobile (generated e)) (intents s)"
  by (simp add: handler_defs reject_def server_error_def split: option.splits if_splits)

lemma verify_ok_intents:
  "res_success (fst (verify_cashier_code e mobile cashierCode s))
     \<Longrightarrow> truthy mobile \<and> truthy cashierCode
         \<and> intents (snd (verify_cashier_code e mobile cashierCode s)) =
             delete_one (by_mobile mobile) (intents s)"
  by (simp add: handler_defs reject_def server_error_def split: option.splits if_splits)

section \<open>The example stores, evaluated\<close>

lemma alice_store_eq:
  "alice_store =
     \<lparr>intents = [\<lparr>ci_name = Some ''Alice'', ci_mobile = Some ''9990001111'',
                  ci_cashierCode = Some ''482913'', ci_date = 1000, ci_expiresAt = 901000\<rparr>],
      history = [\<lparr>h_cashierCode = Some ''482913'', h_mobile = Some ''9990001111'',
                  h_verified = False, h_verifiedAt = None, h_createdAt = 1000\<rparr>],
      purchases = []\<rparr>"
  by (simp add: alice_store_def cash_intent_def calm_def empty_store_def Let_def
        find_one_and_update_upsert_def by_mobile_def new_intent_def new_history_row_def)

lemma alice_store_twice_eq:
  "alice_store_twice =
     \<lparr>intents = [\<lparr>ci_name = Some ''Alice'', ci_mobile = Some ''9990001111'',
                  ci_cashierCode = Some ''482913'', ci_date = 2000, ci_expiresAt = 902000\<rparr>],
      history = [\<lparr>h_cashierCode = Some ''482913'', h_mobile = Some ''9990001111'',
                  h_verified = False, h_verifiedAt = None, h_createdAt = 1000\<rparr>,
                 \<lparr>h_cashierCode = Some ''482913'', h_mobile = Some ''9990001111'',
                  h_verified = False, h_verifiedAt = None, h_createdAt = 2000\<rparr>],
      purchases = []\<rparr>"
  by (simp add: alice_store_twice_def alice_store_eq cash_intent_def calm_def Let_def
        find_one_and_update_upsert_def by_mobile_def set_intent_def set_path_def new_history_row_def)

lemmas eval_defs =
  cash_intent_def verify_cashier_code_def purchase_def save_purchase_def Let_def calm_def failing_def
  find_one_and_update_upsert_def by_mobile_def by_mobile_code_def unverified_row_def
  set_verified_def set_intent_def set_path_def new_intent_def new_history_row_def
  ticking_def expires_after_date_def
  reject_def server_error_def ok_message_def ok_code_def one_intent_per_mobile_def
  magnitude_def digits_small digits_big digit_def

section \<open>Verification of a cashier code\<close>

lemma verify_found_delete:
  assumes "one_intent_per_mobile s"
    and "find_one (by_mobile_code mobile cashierCode) (intents s) = Some i"
  shows "delete_one (by_mobile mobile) (intents s) = remove1 i (intents s)"
    and "\<forall>j\<in>set (delete_one (by_mobile mobile) (intents s)). \<not> by_mobile mobile j"
proof -
  from assms(2) have "i \<in> set (intents s)" and "ci_mobile i = castString mobile"
    using find_one_SomeD [of "by_mobile_code mobile cashierCode" "intents s" i]
    by (simp_all add: by_mobile_code_def)
  with assms(1) show "delete_one (by_mobile mobile) (intents s) = remove1 i (intents s)"
    unfolding by_mobile_def one_intent_per_mobile_def
    by (intro delete_one_remove1) simp_all
  from assms(1) show "\<forall>j\<in>set (delete_one (by_mobile mobile) (intents s)). \<not> by_mobile mobile j"
    unfolding by_mobile_def one_intent_per_mobile_def
    using delete_one_key_gone [of ci_mobile "intents s" _ "castString mobile"]
    by blast
qed

lemma verify_ok_history:
  assumes "truthy mobile" and "truthy cashierCode"
    and "fault e IntentFindOne = None" and "fault e IntentDeleteOne = None"
    and "fault e HistoryUpdateOne = None"
    and "find_one (by_mobile_code mobile cashierCode) (intents s) = Some i"
    and "\<not> clock e 0 > ci_expiresAt i"
  shows "history (snd (verify_cashier_code e mobile cashierCode s))
           = update_one (unverified_row mobile cashierCode) (set_verified (clock e 1)) (history s)"
  using assms by (simp add: verify_cashier_code_def Let_def)

lemma cash_intent_ok_history:
  "res_success (fst (cash_intent e name mobile s))
     \<Longrightarrow> history (snd (cash_intent e name mobile s))
           = history s @ [new_history_row e (generated e) mobile]"
  by (simp add: handler_defs reject_def server_error_def split: option.splits if_splits)

lemma purchase_cash:
  assumes "truthy name" and "truthy mobile" and "fault e IntentDeleteOne = None"
  shows "intents (snd (purchase e name mobile email (Some ps) (JStr ''cash'') cashierCode s))
           = delete_one (by_mobile mobile) (intents s)"
    and "history (snd (purchase e name mobile email (Some ps) (JStr ''cash'') cashierCode s))
           = history s"
  using assms by (simp_all add: purchase_def save_purchase_def Let_def split: option.splits)

text \<open>
  Claim C1, as the code has it. \<open>POST /verify-cashier-code\<close> with a mobile and a code
  that are both present, on a store with at most one \<open>CashIntent\<close> per mobile, when no
  store operation fails: if \<open>findOne\<close> returns an intent \<open>i\<close> for the pair (the code
  compared as text) and the clock is not past \<open>expiresAt\<close>, the response is 200 with
  success and the "Code verified" message, \<open>i\<close> is removed and no intent is left for the
  mobile, and \<open>updateOne\<close> sets \<open>verified = true\<close> and \<open>verifiedAt\<close> on the first row
  in store order that matches mobile and code and is still unverified; every row
  before and after it is as it was, and when no row matches the history is unchanged.
\<close>

theorem verify_success_consumes:
  assumes "one_intent_per_mobile s"
    and "truthy mobile" and "truthy cashierCode"
    and "fault e IntentFindOne = None" and "fault e IntentDeleteOne = None"
    and "fault e HistoryUpdateOne = None"
    and "find_one (by_mobile_code mobile cashierCode) (intents s) = Some i"
    and "\<not> clock e 0 > ci_expiresAt i"
  shows "fst (verify_cashier_code e mobile cashierCode s)
           = ok_message (check_mark @ '' Code verified'')
         \<and> intents (snd (verify_cashier_code e mobile cashierCode s)) = remove1 i (intents s)
         \<and> (\<forall>j\<in>set (intents (snd (verify_cashier_code e mobile cashierCode s))).
               \<not> by_mobile mobile j)
         \<and> (\<forall>pre h post.
               history s = pre @ h # post
               \<and> (\<forall>x\<in>set pre. \<not> unverified_row mobile cashierCode x)
               \<and> unverified_row mobile cashierCode h
               \<longrightarrow> history (snd (verify_cashier_code e mobile cashierCode s))
                     = pre @ h\<lparr>h_verified := True, h_verifiedAt := Some (clock e 1)\<rparr> # post)
         \<and> ((\<forall>x\<in>set (history s). \<not> unverified_row mobile cashierCode x)
               \<longrightarrow> history (snd (verify_cashier_code e mobile cashierCode s)) = history s)
         \<and> purchases (snd (verify_cashier_code e mobile cashierCode s)) = purchases s"
proof -
  have "verify_cashier_code e mobile cashierCode s
          = (ok_message (check_mark @ '' Code verified''),
             s\<lparr>intents := delete_one (by_mobile mobile) (intents s),
               history := update_one (unverified_row mobile cashierCode)
                            (set_verified (clock e 1)) (history s)\<rparr>)"
    using assms(2-8) by (simp add: verify_cashier_code_def Let_def)
  with verify_found_delete [OF assms(1) assms(7)] show ?thesis
    by (simp add: update_one_first update_one_none set_verified_def)
qed

theorem verify_success_consumes_witness:
  "fst (verify_cashier_code (calm JNull 901000) (JStr ''9990001111'') (JNum 482913) alice_store)
     = ok_message (check_mark @ '' Code verified'')
   \<and> intents (snd (verify_cashier_code (calm JNull 901000) (JStr ''9990001111'') (JNum 482913)
                     alice_store)) = []
   \<and> history (snd (verify_cashier_code (calm JNull 901000) (JStr ''9990001111'') (JNum 482913)
                     alice_store))
       = [\<lparr>h_cashierCode = Some ''482913'', h_mobile = Some ''9990001111'',
            h_verified = True, h_verifiedAt = Some 901000, h_createdAt = 1000\<rparr>]"
proof -
  note inst = verify_success_consumes [of alice_store "JStr ''9990001111''" "JNum 482913"
      "calm JNull 901000" "hd (intents alice_store)"]
  have hyps: "one_intent_per_mobile alice_store"
    "truthy (JStr ''9990001111'')" "truthy (JNum 482913)"
    "fault (calm JNull 901000) IntentFindOne = None"
    "fault (calm JNull 901000) IntentDeleteOne = None"
    "fault (calm JNull 901000) HistoryUpdateOne = None"
    "find_one (by_mobile_code (JStr ''9990001111'') (JNum 482913)) (intents alice_store)
       = Some (hd (intents alice_store))"
    "\<not> clock (calm JNull 901000) 0 > ci_expiresAt (hd (intents alice_store))"
    by (simp_all add: alice_store_eq calm_def by_mobile_code_def one_intent_per_mobile_def
        magnitude_def digits_small digits_big digit_def)
  from inst [OF hyps] have
    a: "fst (verify_cashier_code (calm JNull 901000) (JStr ''9990001111'') (JNum 482913)
          alice_store) = ok_message (check_mark @ '' Code verified'')"
    and b: "intents (snd (verify_cashier_code (calm JNull 901000) (JStr ''9990001111'')
          (JNum 482913) alice_store)) = remove1 (hd (intents alice_store)) (intents alice_store)"
    and c: "\<forall>pre h post.
               history alice_store = pre @ h # post
               \<and> (\<forall>x\<in>set pre. \<not> unverified_row (JStr ''9990001111'') (JNum 482913) x)
               \<and> unverified_row (JStr ''9990001111'') (JNum 482913) h
               \<longrightarrow> history (snd (verify_cashier_code (calm JNull 901000) (JStr ''9990001111'')
                       (JNum 482913) alice_store))
                     = pre @ h\<lparr>h_verified := True,
                               h_verifiedAt := Some (clock (calm JNull 901000) 1)\<rparr> # post"
    by blast+
  from c [rule_format, of "[]" "hd (history alice_store)" "[]"]
  have "history (snd (verify_cashier_code (calm JNull 901000) (JStr ''9990001111'')
           (JNum 482913) alice_store))
       = [\<lparr>h_cashierCode = Some ''482913'', h_mobile = Some ''9990001111'',
            h_verified = True, h_verifiedAt = Some 901000, h_createdAt = 1000\<rparr>]"
    by (simp add: alice_store_eq calm_def unverified_row_def magnitude_def digits_small digits_big digit_def)
  with a b show ?thesis by (simp add: alice_store_eq)
qed

text \<open>
  The claim's "most recent matching row" fails on the store reached by two intent
  requests for Alice that were both given the code 482913: both history rows match and
  are unverified, the request is answered 200, and it is the older row (created at
  1000) that is verified while the most recent one (created at 2000) stays unverified.
\<close>

theorem verify_most_recent_row_counterexample:
  "res_status (fst (verify_cashier_code (calm JNull 3000) (JStr ''9990001111'') (JNum 482913)
                      alice_store_twice)) = 200
   \<and> map h_createdAt (history alice_store_twice) = [1000, 2000]
   \<and> map (unverified_row (JStr ''9990001111'') (JNum 482913)) (history alice_store_twice)
       = [True, True]
   \<and> map h_verified
        (history (snd (verify_cashier_code (calm JNull 3000) (JStr ''9990001111'')
                         (JNum 482913) alice_store_twice)))
       = [True, False]"
  by (simp add: alice_store_twice_eq eval_defs)

text \<open>
  Claim C3. \<open>POST /verify-cashier-code\<close> with a mobile and a code that are both
  present, on a store with at most one \<open>CashIntent\<close> per mobile, when \<open>findOne\<close> and
  \<open>deleteOne\<close> do not fail: if \<open>findOne\<close> returns an intent \<open>i\<close> for the pair and the
  clock is past its \<open>expiresAt\<close>, the response is 401 with the "Code expired" message,
  \<open>i\<close> is removed, no intent is left for the mobile, and history and purchases are as
  they were.
\<close>

theorem verify_expired_deletes:
  assumes "one_intent_per_mobile s"
    and "truthy mobile" and "truthy cashierCode"
    and "fault e IntentFindOne = None" and "fault e IntentDeleteOne = None"
    and "find_one (by_mobile_code mobile cashierCode) (intents s) = Some i"
    and "clock e 0 > ci_expiresAt i"
  shows "fst (verify_cashier_code e mobile cashierCode s)
           = reject 401 (cross_mark @ '' Code expired'')
         \<and> intents (snd (verify_cashier_code e mobile cashierCode s)) = remove1 i (intents s)
         \<and> (\<forall>j\<in>set (intents (snd (verify_cashier_code e mobile cashierCode s))).
               \<not> by_mobile mobile j)
         \<and> history (snd (verify_cashier_code e mobile cashierCode s)) = history s
         \<and> purchases (snd (verify_cashier_code e mobile cashierCode s)) = purchases s"
proof -
  have "verify_cashier_code e mobile cashierCode s
          = (reject 401 (cross_mark @ '' Code expired''),
             s\<lparr>intents := delete_one (by_mobile mobile) (intents s)\<rparr>)"
    using assms(2-7) by (simp add: verify_cashier_code_def)
  with verify_found_delete [OF assms(1) assms(6)] show ?thesis by simp
qed

theorem verify_expired_deletes_witness:
  "fst (verify_cashier_code (calm JNull 901001) (JStr ''9990001111'') (JNum 482913) alice_store)
     = reject 401 (cross_mark @ '' Code expired'')
   \<and> intents (snd (verify_cashier_code (calm JNull 901001) (JStr ''9990001111'') (JNum 482913)
                     alice_store)) = []
   \<and> history (snd (verify_cashier_code (calm JNull 901001) (JStr ''9990001111'') (JNum 482913)
                     alice_store)) = history alice_store"
  using verify_expired_deletes [of alice_store "JStr ''9990001111''" "JNum 482913"
      "calm JNull 901001" "hd (intents alice_store)"]
  by (simp add: alice_store_eq calm_def by_mobile_code_def one_intent_per_mobile_def
        magnitude_def digits_small digits_big digit_def)

text \<open>
  Claim C4. \<open>POST /verify-cashier-code\<close> with a mobile and a code that are both
  present, when \<open>findOne\<close> does not fail: if no \<open>CashIntent\<close> matches mobile and code
  together (an intent for the mobile with another code is no match), the response is
  401 with the "Invalid code" message and the store is unchanged.
\<close>

theorem verify_no_match_invalid:
  assumes "truthy mobile" and "truthy cashierCode"
    and "fault e IntentFindOne = None"
    and "\<forall>i\<in>set (intents s). \<not> by_mobile_code mobile cashierCode i"
  shows "verify_cashier_code e mobile cashierCode s
           = (reject 401 (cross_mark @ '' Invalid code''), s)"
proof -
  from assms(4) have "find_one (by_mobile_code mobile cashierCode) (intents s) = None"
    by (simp add: find_one_None_iff)
  with assms(1-3) show ?thesis
    by (simp add: verify_cashier_code_def)
qed

theorem verify_no_match_invalid_witness:
  "by_mobile (JStr ''9990001111'') (hd (intents alice_store))
   \<and> verify_cashier_code (calm JNull 2000) (JStr ''9990001111'') (JStr ''000000'') alice_store
       = (reject 401 (cross_mark @ '' Invalid code''), alice_store)"
proof -
  have "verify_cashier_code (calm JNull 2000) (JStr ''9990001111'') (JStr ''000000'') alice_store
       = (reject 401 (cross_mark @ '' Invalid code''), alice_store)"
    by (rule verify_no_match_invalid)
       (simp_all add: alice_store_eq calm_def by_mobile_code_def)
  then show ?thesis
    by (simp add: alice_store_eq by_mobile_def)
qed

text \<open>
  Claim C5. On a store with at most one \<open>CashIntent\<close> per mobile, after a
  \<open>POST /verify-cashier-code\<close> for mobile and code that was answered with success, the
  same request again (in any environment in which \<open>findOne\<close> does not fail) is
  answered 401 with the "Invalid code" message and changes nothing: the first request
  deleted the intent of the mobile.
\<close>

theorem verify_twice_invalid:
  assumes "one_intent_per_mobile s"
    and "verify_cashier_code e mobile cashierCode s = (r, s')"
    and "res_success r"
    and "fault e' IntentFindOne = None"
  shows "verify_cashier_code e' mobile cashierCode s'
           = (reject 401 (cross_mark @ '' Invalid code''), s')"
proof -
  from assms(2,3) have ok: "res_success (fst (verify_cashier_code e mobile cashierCode s))"
    by simp
  from verify_ok_intents [OF ok] assms(2)
  have present: "truthy mobile" "truthy cashierCode"
    and del: "intents s' = delete_one (by_mobile mobile) (intents s)"
    by simp_all
  have "\<forall>j\<in>set (intents s'). ci_mobile j \<noteq> castString mobile"
    using assms(1) delete_one_key_gone [of ci_mobile "intents s" _ "castString mobile"]
    unfolding del by_mobile_def one_intent_per_mobile_def by blast
  then have "find_one (by_mobile_code mobile cashierCode) (intents s') = None"
    by (simp add: find_one_None_iff by_mobile_code_def)
  with present assms(4) show ?thesis
    by (simp add: verify_cashier_code_def)
qed

theorem verify_twice_invalid_witness:
  "res_success (fst (verify_cashier_code (calm JNull 1000) (JStr ''9990001111'')
                       (JStr ''482913'') alice_store))
   \<and> fst (verify_cashier_code (calm JNull 1000) (JStr ''9990001111'') (JStr ''482913'')
            (snd (verify_cashier_code (calm JNull 1000) (JStr ''9990001111'')
                    (JStr ''482913'') alice_store)))
       = reject 401 (cross_mark @ '' Invalid code'')"
proof -
  have hyps: "one_intent_per_mobile alice_store"
    "verify_cashier_code (calm JNull 1000) (JStr ''9990001111'') (JStr ''482913'') alice_store
       = (fst (verify_cashier_code (calm JNull 1000) (JStr ''9990001111'') (JStr ''482913'')
                alice_store),
          snd (verify_cashier_code (calm JNull 1000) (JStr ''9990001111'') (JStr ''482913'')
                alice_store))"
    "res_success (fst (verify_cashier_code (calm JNull 1000) (JStr ''9990001111'')
                       (JStr ''482913'') alice_store))"
    "fault (calm JNull 1000) IntentFindOne = None"
    by (simp_all add: alice_store_eq eval_defs)
  from verify_twice_invalid [OF hyps] hyps(3) show ?thesis by simp
qed

text \<open>
  Claim C8. In the success path of \<open>POST /verify-cashier-code\<close> the history is changed
  by one \<open>updateOne\<close>: the collection keeps its length, at most one row differs from
  before, and that row is the first one in store order that matches mobile and code
  and is unverified. Of two matching rows the later one is left as it was, still
  unverified. Store order is insertion order: a successful \<open>POST /cash-intent\<close> appends
  its history row at the end, on every call.
\<close>

theorem verify_updates_first_row_only:
  assumes "truthy mobile" and "truthy cashierCode"
    and "fault e IntentFindOne = None" and "fault e IntentDeleteOne = None"
    and "fault e HistoryUpdateOne = None"
    and "find_one (by_mobile_code mobile cashierCode) (intents s) = Some i"
    and "\<not> clock e 0 > ci_expiresAt i"
  shows "length (history (snd (verify_cashier_code e mobile cashierCode s))) = length (history s)
         \<and> card {k. k < length (history s)
                    \<and> history (snd (verify_cashier_code e mobile cashierCode s)) ! k
                        \<noteq> history s ! k} \<le> 1
         \<and> (\<forall>k<length (history s).
               unverified_row mobile cashierCode (history s ! k)
               \<and> (\<forall>j<k. \<not> unverified_row mobile cashierCode (history s ! j))
               \<longrightarrow> history (snd (verify_cashier_code e mobile cashierCode s))
                     = (history s)[k := (history s ! k)\<lparr>h_verified := True,
                                                         h_verifiedAt := Some (clock e 1)\<rparr>])
         \<and> (\<forall>j k. j < k \<and> k < length (history s)
               \<and> unverified_row mobile cashierCode (history s ! j)
               \<and> unverified_row mobile cashierCode (history s ! k)
               \<longrightarrow> history (snd (verify_cashier_code e mobile cashierCode s)) ! k = history s ! k
                   \<and> \<not> h_verified (history (snd (verify_cashier_code e mobile cashierCode s)) ! k))
         \<and> (res_success (fst (cash_intent e' name' mobile' s))
               \<longrightarrow> history (snd (cash_intent e' name' mobile' s))
                     = history s @ [new_history_row e' (generated e') mobile'])"
proof -
  let ?P = "unverified_row mobile cashierCode"
  let ?g = "set_verified (clock e 1)"
  let ?hs = "history s"
  have eq: "history (snd (verify_cashier_code e mobile cashierCode s)) = update_one ?P ?g ?hs"
    using assms by (rule verify_ok_history)
  have len: "length (update_one ?P ?g ?hs) = length ?hs"
    by (rule length_update_one)
  have one: "card {k. k < length ?hs \<and> update_one ?P ?g ?hs ! k \<noteq> ?hs ! k} \<le> 1"
    by (rule update_one_changes_le_1)
  have first: "\<forall>k<length ?hs. ?P (?hs ! k) \<and> (\<forall>j<k. \<not> ?P (?hs ! j))
      \<longrightarrow> update_one ?P ?g ?hs
          = ?hs[k := (?hs ! k)\<lparr>h_verified := True, h_verifiedAt := Some (clock e 1)\<rparr>]"
    using update_one_list_update [of _ ?hs ?P ?g]
    by (simp add: set_verified_def)
  have later: "\<forall>j k. j < k \<and> k < length ?hs \<and> ?P (?hs ! j) \<and> ?P (?hs ! k)
      \<longrightarrow> update_one ?P ?g ?hs ! k = ?hs ! k \<and> \<not> h_verified (update_one ?P ?g ?hs ! k)"
  proof (intro allI impI)
    fix j k
    assume h: "j < k \<and> k < length ?hs \<and> ?P (?hs ! j) \<and> ?P (?hs ! k)"
    then have "update_one ?P ?g ?hs ! k = ?hs ! k"
      by (intro update_one_later_untouched [of j k]) simp_all
    moreover from h have "\<not> h_verified (?hs ! k)"
      by (simp add: unverified_row_def)
    ultimately show "update_one ?P ?g ?hs ! k = ?hs ! k \<and> \<not> h_verified (update_one ?P ?g ?hs ! k)"
      by simp
  qed
  have appended: "res_success (fst (cash_intent e' name' mobile' s))
      \<longrightarrow> history (snd (cash_intent e' name' mobile' s))
            = history s @ [new_history_row e' (generated e') mobile']"
    by (simp add: cash_intent_ok_history)
  from len one first later appended show ?thesis
    unfolding eq by blast
qed

theorem verify_updates_first_row_only_witness:
  "map (unverified_row (JStr ''9990001111'') (JStr ''482913'')) (history alice_store_twice)
     = [True, True]
   \<and> history (snd (verify_cashier_code (calm JNull 3000) (JStr ''9990001111'')
                     (JStr ''482913'') alice_store_twice))
       = [\<lparr>h_cashierCode = Some ''482913'', h_mobile = Some ''9990001111'',
            h_verified = True, h_verifiedAt = Some 3000, h_createdAt = 1000\<rparr>,
          \<lparr>h_cashierCode = Some ''482913'', h_mobile = Some ''9990001111'',
            h_verified = False, h_verifiedAt = None, h_createdAt = 2000\<rparr>]"
proof -
  let ?s' = "snd (verify_cashier_code (calm JNull 3000) (JStr ''9990001111'')
                     (JStr ''482913'') alice_store_twice)"
  have hyps: "truthy (JStr ''9990001111'')" "truthy (JStr ''482913'')"
    "fault (calm JNull 3000) IntentFindOne = None"
    "fault (calm JNull 3000) IntentDeleteOne = None"
    "fault (calm JNull 3000) HistoryUpdateOne = None"
    "find_one (by_mobile_code (JStr ''9990001111'') (JStr ''482913''))
       (intents alice_store_twice) = Some (hd (intents alice_store_twice))"
    "\<not> clock (calm JNull 3000) 0 > ci_expiresAt (hd (intents alice_store_twice))"
    by (simp_all add: alice_store_twice_eq calm_def by_mobile_code_def)
  from verify_updates_first_row_only [OF hyps]
  have "\<forall>k<length (history alice_store_twice).
               unverified_row (JStr ''9990001111'') (JStr ''482913'') (history alice_store_twice ! k)
               \<and> (\<forall>j<k. \<not> unverified_row (JStr ''9990001111'') (JStr ''482913'')
                              (history alice_store_twice ! j))
               \<longrightarrow> history ?s'
                     = (history alice_store_twice)[k := (history alice_store_twice ! k)
                          \<lparr>h_verified := True, h_verifiedAt := Some (clock (calm JNull 3000) 1)\<rparr>]"
    by blast
  from this [rule_format, of 0] show ?thesis
    by (simp add: alice_store_twice_eq calm_def unverified_row_def)
qed

section \<open>Issuing a cash intent\<close>

text \<open>
  Claim C2, as the code has it. On a store with at most one \<open>CashIntent\<close> per mobile,
  after a \<open>POST /cash-intent\<close> that was answered with success exactly one intent has
  the request's mobile. Its \<open>expiresAt\<close> is the reading of \<open>Date.now()\<close> of line 152
  plus 15 minutes (in milliseconds); its stored creation time \<open>date\<close> is the reading of
  \<open>new Date()\<close> of line 151, taken just before. So \<open>expiresAt\<close> is \<open>date\<close> plus 15 minutes
  when the two readings agree, and no earlier than that when the clock did not run
  backwards between them. Every request of the three handlers, in any environment and
  with any outcome, keeps the property that no two intents share a mobile, and so it
  holds after any sequence of requests on the empty store.
\<close>

theorem cash_intent_exactly_one:
  assumes "one_intent_per_mobile s"
    and "res_success (fst (cash_intent e name mobile s))"
  shows "(\<exists>i. filter (by_mobile mobile) (intents (snd (cash_intent e name mobile s))) = [i]
            \<and> ci_expiresAt i = clock e 1 + 15 * 60 * 1000
            \<and> ci_date i = clock e 0
            \<and> (clock e 0 = clock e 1 \<longrightarrow> ci_expiresAt i = ci_date i + 15 * 60 * 1000)
            \<and> (clock e 0 \<le> clock e 1 \<longrightarrow> ci_date i + 15 * 60 * 1000 \<le> ci_expiresAt i))
         \<and> one_intent_per_mobile (snd (handle e' r s))
         \<and> one_intent_per_mobile (run rs (empty_store :: 'p store))"
proof -
  let ?new = "new_intent e name mobile (generated e)"
  let ?Q = "\<lambda>i. ci_expiresAt i = clock e 1 + 15 * 60 * 1000 \<and> ci_date i = clock e 0"
  from cash_intent_ok_intents [OF assms(2)]
  have present: "truthy mobile"
    and stored: "intents (snd (cash_intent e name mobile s)) =
      find_one_and_update_upsert (\<lambda>y. ci_mobile y = castString mobile)
        (set_intent e name mobile (generated e)) ?new (intents s)"
    by (simp_all add: by_mobile_def [abs_def])
  have "\<exists>i. filter (\<lambda>y. ci_mobile y = castString mobile)
          (find_one_and_update_upsert (\<lambda>y. ci_mobile y = castString mobile)
             (set_intent e name mobile (generated e)) ?new (intents s)) = [i] \<and> ?Q i"
    using assms(1) present
    by (intro filter_upsert)
       (simp_all add: one_intent_per_mobile_def set_intent_mobile set_intent_times new_intent_def)
  then obtain i where
    one: "filter (by_mobile mobile) (intents (snd (cash_intent e name mobile s))) = [i]"
    and times: "ci_expiresAt i = clock e 1 + 15 * 60 * 1000" "ci_date i = clock e 0"
    unfolding stored by (auto simp: by_mobile_def [abs_def])
  have "one_intent_per_mobile (snd (handle e' r s))"
    using assms(1) by (rule handle_inv)
  moreover have "one_intent_per_mobile (run rs (empty_store :: 'p store))"
    using empty_inv by (rule run_inv)
  ultimately show ?thesis
    using one times by simp
qed

theorem cash_intent_exactly_one_witness:
  "res_success (fst (cash_intent (calm (JStr ''771204'') 5000) (JStr ''Alice'')
                       (JStr ''9990001111'') alice_store))
   \<and> intents (snd (cash_intent (calm (JStr ''771204'') 5000) (JStr ''Alice'')
                     (JStr ''9990001111'') alice_store))
       = [\<lparr>ci_name = Some ''Alice'', ci_mobile = Some ''9990001111'',
            ci_cashierCode = Some ''771204'', ci_date = 5000, ci_expiresAt = 905000\<rparr>]
   \<and> one_intent_per_mobile
        (snd (handle (calm (JStr ''771204'') 5000)
                (CashIntentReq (JStr ''Alice'') (JStr ''9990001111'')) alice_store))"
proof -
  have hyps: "one_intent_per_mobile alice_store"
    "res_success (fst (cash_intent (calm (JStr ''771204'') 5000) (JStr ''Alice'')
                       (JStr ''9990001111'') alice_store))"
    by (simp_all add: alice_store_eq eval_defs)
  from cash_intent_exactly_one [OF hyps,
      of "calm (JStr ''771204'') 5000" "CashIntentReq (JStr ''Alice'') (JStr ''9990001111'')" "[]"]
  have "one_intent_per_mobile
        (snd (handle (calm (JStr ''771204'') 5000)
                (CashIntentReq (JStr ''Alice'') (JStr ''9990001111'')) alice_store))"
    by blast
  with hyps(2) show ?thesis
    by (simp add: alice_store_eq eval_defs)
qed

text \<open>
  The claim's "expiresAt equals its creation time plus 15 minutes" fails for the stored
  creation time when the clock advances between the two readings: on the empty store,
  with readings one millisecond apart, the request succeeds and the one intent has
  \<open>date = 1000\<close> and \<open>expiresAt = 901001\<close>.
\<close>

theorem cash_intent_expiry_counterexample:
  "res_success (fst (cash_intent (ticking (JStr ''482913'') 1000) (JStr ''Alice'')
                       (JStr ''9990001111'') (empty_store :: unit store)))
   \<and> map ci_date
        (intents (snd (cash_intent (ticking (JStr ''482913'') 1000) (JStr ''Alice'')
                         (JStr ''9990001111'') (empty_store :: unit store)))) = [1000]
   \<and> map ci_expiresAt
        (intents (snd (cash_intent (ticking (JStr ''482913'') 1000) (JStr ''Alice'')
                         (JStr ''9990001111'') (empty_store :: unit store)))) = [901001]
   \<and> map expires_after_date
        (intents (snd (cash_intent (ticking (JStr ''482913'') 1000) (JStr ''Alice'')
                         (JStr ''9990001111'') (empty_store :: unit store)))) = [False]"
  by (simp add: empty_store_def eval_defs)

text \<open>
  Claim C10, as the code has it. \<open>POST /cash-intent\<close> with name and mobile present,
  when the upsert succeeds and \<open>CashierCodeHistory.create\<close> then rejects: the response is
  500 and carries no code, the upserted intent for the mobile is in the store with
  its new expiry and (when a code was generated) the generated code, and no history
  row was added: the history is as it was before the request.
\<close>

theorem cash_intent_error_keeps_intent:
  assumes "truthy name" and "truthy mobile"
    and "fault e IntentFindOneAndUpdate = None" and "fault e HistoryCreate = Some err"
  shows "fst (cash_intent e name mobile s) = server_error ''Error saving cash intent'' err
         \<and> res_status (fst (cash_intent e name mobile s)) = 500
         \<and> res_cashierCode (fst (cash_intent e name mobile s)) = None
         \<and> intents (snd (cash_intent e name mobile s))
             = find_one_and_update_upsert (by_mobile mobile)
                 (set_intent e name mobile (generated e))
                 (new_intent e name mobile (generated e)) (intents s)
         \<and> (\<exists>i\<in>set (intents (snd (cash_intent e name mobile s))).
               ci_mobile i = castString mobile
               \<and> ci_expiresAt i = clock e 1 + 15 * 60 * 1000
               \<and> (generated e \<noteq> JUndefined \<longrightarrow> ci_cashierCode i = castString (generated e)))
         \<and> history (snd (cash_intent e name mobile s)) = history s"
proof -
  let ?new = "new_intent e name mobile (generated e)"
  let ?Q = "\<lambda>i. ci_mobile i = castString mobile
      \<and> ci_expiresAt i = clock e 1 + 15 * 60 * 1000
      \<and> (generated e \<noteq> JUndefined \<longrightarrow> ci_cashierCode i = castString (generated e))"
  have run: "cash_intent e name mobile s
          = (server_error ''Error saving cash intent'' err,
             s\<lparr>intents := find_one_and_update_upsert (by_mobile mobile)
                 (set_intent e name mobile (generated e)) ?new (intents s)\<rparr>)"
    using assms by (simp add: cash_intent_def Let_def)
  have "\<exists>i\<in>set (find_one_and_update_upsert (by_mobile mobile)
                 (set_intent e name mobile (generated e)) ?new (intents s)). ?Q i"
    using assms(2)
    by (intro upsert_mem)
       (simp_all add: new_intent_def set_intent_mobile set_intent_times set_intent_code)
  then show ?thesis
    using run by (simp add: server_error_def)
qed

theorem cash_intent_error_keeps_intent_witness:
  "fst (cash_intent (failing (JStr ''771204'') 5000 HistoryCreate ''write failed'')
          (JStr ''Bob'') (JStr ''8880002222'') alice_store)
     = server_error ''Error saving cash intent'' ''write failed''
   \<and> map ci_cashierCode
        (intents (snd (cash_intent (failing (JStr ''771204'') 5000 HistoryCreate ''write failed'')
                         (JStr ''Bob'') (JStr ''8880002222'') alice_store)))
       = [Some ''482913'', Some ''771204'']
   \<and> history (snd (cash_intent (failing (JStr ''771204'') 5000 HistoryCreate ''write failed'')
                     (JStr ''Bob'') (JStr ''8880002222'') alice_store))
       = history alice_store"
  using cash_intent_error_keeps_intent [of "JStr ''Bob''" "JStr ''8880002222''"
      "failing (JStr ''771204'') 5000 HistoryCreate ''write failed''" "''write failed''"
      alice_store]
  by (simp add: alice_store_eq eval_defs)

text \<open>
  The claim's "no matching history row" fails when the generator returns a code the
  mobile was issued before: on Alice's store, with 482913 drawn again and the insert
  rejecting, the response is 500, the intent carries 482913, and the history row of
  the first issue matches the intent's mobile and code.
\<close>

theorem cash_intent_matching_row_counterexample:
  "fst (cash_intent (failing (JStr ''482913'') 2000 HistoryCreate ''write failed'')
          (JStr ''Alice'') (JStr ''9990001111'') alice_store)
     = server_error ''Error saving cash intent'' ''write failed''
   \<and> map ci_cashierCode
        (intents (snd (cash_intent (failing (JStr ''482913'') 2000 HistoryCreate ''write failed'')
                         (JStr ''Alice'') (JStr ''9990001111'') alice_store)))
       = [Some ''482913'']
   \<and> map ci_expiresAt
        (intents (snd (cash_intent (failing (JStr ''482913'') 2000 HistoryCreate ''write failed'')
                         (JStr ''Alice'') (JStr ''9990001111'') alice_store)))
       = [902000]
   \<and> map (unverified_row (JStr ''9990001111'') (JStr ''482913''))
        (history (snd (cash_intent (failing (JStr ''482913'') 2000 HistoryCreate ''write failed'')
                         (JStr ''Alice'') (JStr ''9990001111'') alice_store)))
       = [True]"
  by (simp add: alice_store_eq eval_defs)

section \<open>Saving a cash purchase\<close>

text \<open>
  Claim C6. \<open>POST /purchase\<close> with name, mobile and products present and payment method
  \<open>'cash'\<close>, on a store with at most one \<open>CashIntent\<close> per mobile, when \<open>deleteOne\<close>
  does not fail: afterwards no intent has the mobile. Nothing is asked of the history,
  which is neither read nor changed: the intent goes whether or not its code was ever
  verified.
\<close>

theorem cash_purchase_clears_intent:
  assumes "one_intent_per_mobile s"
    and "truthy name" and "truthy mobile"
    and "fault e IntentDeleteOne = None"
  shows "(\<forall>i\<in>set (intents (snd (purchase e name mobile email (Some ps) (JStr ''cash'')
                                     cashierCode s))). \<not> by_mobile mobile i)
         \<and> intents (snd (purchase e name mobile email (Some ps) (JStr ''cash'') cashierCode s))
             = delete_one (by_mobile mobile) (intents s)
         \<and> history (snd (purchase e name mobile email (Some ps) (JStr ''cash'') cashierCode s))
             = history s"
proof -
  have "\<forall>i\<in>set (delete_one (by_mobile mobile) (intents s)). \<not> by_mobile mobile i"
    using assms(1) delete_one_key_gone [of ci_mobile "intents s" _ "castString mobile"]
    unfolding by_mobile_def one_intent_per_mobile_def by blast
  then show ?thesis by (simp add: purchase_cash [OF assms(2-4)])
qed

theorem cash_purchase_clears_intent_witness:
  "map h_verified (history alice_store) = [False]
   \<and> map (by_mobile (JStr ''9990001111'')) (intents alice_store) = [True]
   \<and> intents (snd (purchase (calm JNull 7000) (JStr ''Alice'') (JStr ''9990001111'') JUndefined
                     (Some ()) (JStr ''cash'') (JStr ''482913'') alice_store)) = []
   \<and> history (snd (purchase (calm JNull 7000) (JStr ''Alice'') (JStr ''9990001111'') JUndefined
                     (Some ()) (JStr ''cash'') (JStr ''482913'') alice_store))
       = history alice_store"
  using cash_purchase_clears_intent [of alice_store "JStr ''Alice''" "JStr ''9990001111''"
      "calm JNull 7000" JUndefined "()" "JStr ''482913''"]
  by (simp add: alice_store_eq eval_defs)

text \<open>
  Claim C9. \<open>POST /purchase\<close> with payment method \<open>'cash'\<close>, when \<open>deleteOne\<close> succeeds
  and \<open>purchase.save()\<close> then rejects: the response is 500, no purchase was added, and
  the intent of the mobile is gone all the same, so the store is not the one before
  the request.
\<close>

theorem purchase_error_keeps_intent_deleted:
  assumes "truthy name" and "truthy mobile"
    and "fault e IntentDeleteOne = None" and "fault e PurchaseSave = Some err"
    and "i \<in> set (intents s)" and "by_mobile mobile i"
  shows "fst (purchase e name mobile email (Some ps) (JStr ''cash'') cashierCode s)
           = server_error ''Error saving purchase'' err
         \<and> intents (snd (purchase e name mobile email (Some ps) (JStr ''cash'') cashierCode s))
             = delete_one (by_mobile mobile) (intents s)
         \<and> Suc (length (intents (snd (purchase e name mobile email (Some ps) (JStr ''cash'')
                                        cashierCode s)))) = length (intents s)
         \<and> snd (purchase e name mobile email (Some ps) (JStr ''cash'') cashierCode s) \<noteq> s
         \<and> purchases (snd (purchase e name mobile email (Some ps) (JStr ''cash'') cashierCode s))
             = purchases s"
proof -
  let ?s' = "snd (purchase e name mobile email (Some ps) (JStr ''cash'') cashierCode s)"
  have run: "purchase e name mobile email (Some ps) (JStr ''cash'') cashierCode s
          = (server_error ''Error saving purchase'' err,
             s\<lparr>intents := delete_one (by_mobile mobile) (intents s)\<rparr>)"
    using assms(1-4) by (simp add: purchase_def save_purchase_def Let_def)
  from assms(5,6) obtain x where "find_one (by_mobile mobile) (intents s) = Some x"
    by (cases "find_one (by_mobile mobile) (intents s)") (auto simp: find_one_None_iff)
  then have len: "Suc (length (delete_one (by_mobile mobile) (intents s))) = length (intents s)"
    by (rule length_delete_one)
  then have "intents ?s' \<noteq> intents s"
    using run by auto
  then have "?s' \<noteq> s" by auto
  with run len show ?thesis by simp
qed

theorem purchase_error_keeps_intent_deleted_witness:
  "fst (purchase (failing JNull 7000 PurchaseSave ''validation failed'') (JStr ''Alice'')
          (JStr ''9990001111'') JUndefined (Some ()) (JStr ''cash'') (JStr ''482913'') alice_store)
     = server_error ''Error saving purchase'' ''validation failed''
   \<and> length (intents alice_store) = 1
   \<and> intents (snd (purchase (failing JNull 7000 PurchaseSave ''validation failed'')
                     (JStr ''Alice'') (JStr ''9990001111'') JUndefined (Some ()) (JStr ''cash'')
                     (JStr ''482913'') alice_store)) = []
   \<and> purchases (snd (purchase (failing JNull 7000 PurchaseSave ''validation failed'')
                     (JStr ''Alice'') (JStr ''9990001111'') JUndefined (Some ()) (JStr ''cash'')
                     (JStr ''482913'') alice_store)) = []"
  using purchase_error_keeps_intent_deleted [of "JStr ''Alice''" "JStr ''9990001111''"
      "failing JNull 7000 PurchaseSave ''validation failed''" "''validation failed''"
      "hd (intents alice_store)" alice_store JUndefined "()" "JStr ''482913''"]
  by (simp add: alice_store_eq eval_defs)

section \<open>Validation of the request body\<close>

text \<open>
  Claim C7. \<open>POST /cash-intent\<close> with a falsy name or mobile, and
  \<open>POST /verify-cashier-code\<close> with a falsy mobile or code, answer 400 with
  \<open>success = false\<close> and leave the store as it was, whatever the environment; an
  absent field (\<open>undefined\<close>) is falsy.
\<close>

theorem missing_fields_rejected:
  "(\<not> truthy name \<or> \<not> truthy mobile
      \<longrightarrow> cash_intent e name mobile s = (reject 400 ''Missing fields'', s))
   \<and> (\<not> truthy mobile' \<or> \<not> truthy cashierCode
      \<longrightarrow> verify_cashier_code e' mobile' cashierCode s = (reject 400 ''Missing mobile or code'', s))
   \<and> res_status (reject 400 msg) = 400 \<and> res_success (reject 400 msg) = False
   \<and> \<not> truthy JUndefined"
  by (simp add: cash_intent_def verify_cashier_code_def reject_def)

theorem missing_fields_rejected_witness:
  "cash_intent (calm (JStr ''482913'') 1000) JUndefined (JStr ''9990001111'') alice_store
     = (reject 400 ''Missing fields'', alice_store)
   \<and> cash_intent (calm (JStr ''482913'') 1000) (JStr ''Alice'') JUndefined alice_store
     = (reject 400 ''Missing fields'', alice_store)
   \<and> verify_cashier_code (calm JNull 1000) JUndefined (JStr ''482913'') alice_store
     = (reject 400 ''Missing mobile or code'', alice_store)
   \<and> verify_cashier_code (calm JNull 1000) (JStr ''9990001111'') JUndefined alice_store
     = (reject 400 ''Missing mobile or code'', alice_store)"
  using
    missing_fields_rejected [of JUndefined "JStr ''9990001111''" "calm (JStr ''482913'') 1000"
      alice_store JUndefined "JStr ''482913''" "calm JNull 1000"]
    missing_fields_rejected [of "JStr ''Alice''" JUndefined "calm (JStr ''482913'') 1000"
      alice_store "JStr ''9990001111''" JUndefined "calm JNull 1000"]
  by simp

end
